theory Spec2Isabelle
  imports Main "HOL-Library.Word"
begin

section \<open>The positions job: fetch a brokerage snapshot and write it as JSON\<close>

text \<open>
  A shallow embedding of \<^verbatim>\<open>dashboard/update_jobs/positions_job.py\<close>.
  Python strings are lists of characters; a character stands for the code point of the
  same number. Python exceptions are values: a function that can raise returns a sum
  whose left injection carries the exception. Everything outside the program (environment
  variables, the clock, the trading API, the file system) is a value of type \<open>world\<close>
  which the functions consult; what they did to the outside is recorded in a state.
\<close>

subsection \<open>Exceptions\<close>

text \<open>
  An exception has a class and the text that \<^verbatim>\<open>str(e)\<close> returns. The classes
  \<open>KeyboardInterrupt\<close> and \<open>SystemExit\<close> derive from \<^verbatim>\<open>BaseException\<close> only; every
  other class derives from \<^verbatim>\<open>Exception\<close>, which is what the clause
  \<^verbatim>\<open>except Exception as e\<close> tests.
\<close>

datatype pyclass =
    ValueError | TypeError | OSError | OtherException string
  | KeyboardInterrupt | SystemExit

datatype pyexn = PyExn (exn_class: pyclass) (exn_str: string)

fun isinstance_Exception :: "pyexn \<Rightarrow> bool" where
  "isinstance_Exception (PyExn KeyboardInterrupt _) = False"
| "isinstance_Exception (PyExn SystemExit _) = False"
| "isinstance_Exception (PyExn _ _) = True"

subsection \<open>Module configuration\<close>

text \<open>
  \<^verbatim>\<open>os.getenv(name)\<close> is \<open>None\<close> for an unset variable; with a default it returns
  the default instead. \<^verbatim>\<open>str.lower\<close> is given on the letters A to Z, the only ones
  whose lower case occurs in \<^verbatim>\<open>'true'\<close>.
\<close>

type_synonym environ = "string \<rightharpoonup> string"

definition getenv :: "environ \<Rightarrow> string \<Rightarrow> string option" where
  "getenv env name = env name"

definition getenv_default :: "environ \<Rightarrow> string \<Rightarrow> string \<Rightarrow> string" where
  "getenv_default env name dflt = (case env name of None \<Rightarrow> dflt | Some v \<Rightarrow> v)"

definition lower_char :: "char \<Rightarrow> char" where
  "lower_char c =
     (case map_of (zip ''ABCDEFGHIJKLMNOPQRSTUVWXYZ'' ''abcdefghijklmnopqrstuvwxyz'') c of
        None \<Rightarrow> c
      | Some d \<Rightarrow> d)"

definition lower :: "string \<Rightarrow> string" where
  "lower s = map lower_char s"

record config =
  ALPACA_API_KEY :: "string option"
  ALPACA_SECRET_KEY :: "string option"
  ALPACA_PAPER :: bool
  DATA_DIR :: string

definition module_config :: "environ \<Rightarrow> string \<Rightarrow> config" where
  "module_config env data_dir =
     \<lparr> ALPACA_API_KEY = getenv env ''ALPACA_API_KEY'',
       ALPACA_SECRET_KEY = getenv env ''ALPACA_SECRET_KEY'',
       ALPACA_PAPER = (lower (getenv_default env ''ALPACA_PAPER'' ''true'') = ''true''),
       DATA_DIR = data_dir \<rparr>"

text \<open>\<^verbatim>\<open>not x\<close> for an optional string: true of \<open>None\<close> and of the empty string.\<close>

fun py_not :: "string option \<Rightarrow> bool" where
  "py_not None = True"
| "py_not (Some s) = (s = [])"

fun credential :: "string option \<Rightarrow> string" where
  "credential None = []"
| "credential (Some s) = s"

text \<open>
  Equality with \<^verbatim>\<open>"true"\<close> up to letter case, spelled out: four characters, each
  the small or the capital letter.
\<close>

definition is_true_ignoring_case :: "string \<Rightarrow> bool" where
  "is_true_ignoring_case v =
     (case v of
        [a, b, c, d] \<Rightarrow>
          (a = CHR ''t'' \<or> a = CHR ''T'') \<and> (b = CHR ''r'' \<or> b = CHR ''R'') \<and>
          (c = CHR ''u'' \<or> c = CHR ''U'') \<and> (d = CHR ''e'' \<or> d = CHR ''E'')
      | _ \<Rightarrow> False)"

subsection \<open>Date and time\<close>

text \<open>
  A naive \<^verbatim>\<open>datetime\<close> is the number of microseconds since 0001-01-01T00:00:00 on the
  proleptic Gregorian calendar, so adding a \<^verbatim>\<open>timedelta\<close> is addition. Python's
  upper bound on a \<^verbatim>\<open>datetime\<close> (the end of year 9999) is outside the model: years
  are printed with four digits. The clock never reads a negative count.
\<close>

type_synonym datetime = int

definition timedelta_hours :: "int \<Rightarrow> int" where
  "timedelta_hours h = h * 3600 * 1000000"

definition dt_days :: "datetime \<Rightarrow> int" where
  "dt_days t = t div 86400000000"

definition dt_hour :: "datetime \<Rightarrow> int" where
  "dt_hour t = t div 3600000000 mod 24"

definition dt_minute :: "datetime \<Rightarrow> int" where
  "dt_minute t = t div 60000000 mod 60"

definition dt_second :: "datetime \<Rightarrow> int" where
  "dt_second t = t div 1000000 mod 60"

definition dt_microsecond :: "datetime \<Rightarrow> int" where
  "dt_microsecond t = t mod 1000000"

text \<open>Year, month and day of a day count; day 0 is 0001-01-01.\<close>

definition civil :: "int \<Rightarrow> int \<times> int \<times> int" where
  "civil days =
     (let z = days + 306;
          era = z div 146097;
          doe = z mod 146097;
          yoe = (doe - doe div 1460 + doe div 36524 - doe div 146096) div 365;
          doy = doe - (365 * yoe + yoe div 4 - yoe div 100);
          mp = (5 * doy + 2) div 153;
          d = doy - (153 * mp + 2) div 5 + 1;
          m = (if mp < 10 then mp + 3 else mp - 9);
          y = yoe + era * 400 + (if m \<le> 2 then 1 else 0)
      in (y, m, d))"

definition digit_char :: "int \<Rightarrow> char" where
  "digit_char d = ''0123456789abcdef'' ! nat d"

definition pad2 :: "int \<Rightarrow> string" where
  "pad2 n = [digit_char (n div 10 mod 10), digit_char (n mod 10)]"

definition pad4 :: "int \<Rightarrow> string" where
  "pad4 n = pad2 (n div 100) @ pad2 n"

definition pad6 :: "int \<Rightarrow> string" where
  "pad6 n = pad2 (n div 10000) @ pad4 n"

text \<open>\<^verbatim>\<open>t.strftime('%Y%m%d_%H%M%S')\<close>\<close>

definition strftime_stamp :: "datetime \<Rightarrow> string" where
  "strftime_stamp t =
     (case civil (dt_days t) of (y, m, d) \<Rightarrow>
        pad4 y @ pad2 m @ pad2 d @ ''_'' @
        pad2 (dt_hour t) @ pad2 (dt_minute t) @ pad2 (dt_second t))"

text \<open>\<^verbatim>\<open>t.isoformat()\<close>: the fraction is printed only when it is not zero.\<close>

definition isoformat :: "datetime \<Rightarrow> string" where
  "isoformat t =
     (case civil (dt_days t) of (y, m, d) \<Rightarrow>
        pad4 y @ ''-'' @ pad2 m @ ''-'' @ pad2 d @ ''T'' @
        pad2 (dt_hour t) @ '':'' @ pad2 (dt_minute t) @ '':'' @ pad2 (dt_second t) @
        (if dt_microsecond t = 0 then [] else ''.'' @ pad6 (dt_microsecond t)))"

subsection \<open>Python values and the JSON encoder\<close>

text \<open>
  The values a record can hold. The type of floating-point numbers is a parameter
  \<open>'f\<close>. An object that \<^verbatim>\<open>json\<close> does not know is either a \<^verbatim>\<open>uuid.UUID\<close>
  (a 128-bit number) or an object of some other class, of which only the class name
  matters. The dictionaries of this program are keyed by strings.
\<close>

datatype uuid = UUID "128 word"

datatype pyobject = UuidObj uuid | OtherObj string

datatype 'f pyval =
    PNone
  | PBool bool
  | PInt int
  | PFloat 'f
  | PStr string
  | PList "'f pyval list"
  | PDict "(string \<times> 'f pyval) list"
  | PObj pyobject

text \<open>\<^verbatim>\<open>str(u)\<close> of a UUID: 32 hexadecimal digits in groups of 8, 4, 4, 4 and 12.\<close>

definition uuid_hex :: "uuid \<Rightarrow> string" where
  "uuid_hex u = (case u of UUID w \<Rightarrow>
     map (\<lambda>i. digit_char (uint w div 16 ^ (31 - i) mod 16)) [0..<32])"

definition uuid_str :: "uuid \<Rightarrow> string" where
  "uuid_str u =
     (let h = uuid_hex u
      in take 8 h @ ''-'' @ take 4 (drop 8 h) @ ''-'' @ take 4 (drop 12 h) @ ''-'' @
         take 4 (drop 16 h) @ ''-'' @ drop 20 h)"

fun isinstance_UUID :: "pyobject \<Rightarrow> bool" where
  "isinstance_UUID (UuidObj _) = True"
| "isinstance_UUID (OtherObj _) = False"

fun type_name :: "pyobject \<Rightarrow> string" where
  "type_name (UuidObj _) = ''UUID''"
| "type_name (OtherObj n) = n"

fun str_obj :: "pyobject \<Rightarrow> string" where
  "str_obj (UuidObj u) = uuid_str u"
| "str_obj (OtherObj n) = ''<'' @ n @ '' object>''"

text \<open>\<^verbatim>\<open>json.JSONEncoder.default\<close>, the base class method: it always raises.\<close>

definition base_default :: "pyobject \<Rightarrow> pyexn + string" where
  "base_default obj =
     Inl (PyExn TypeError (''Object of type '' @ type_name obj @ '' is not JSON serializable''))"

text \<open>\<^verbatim>\<open>JSONEncoder.default\<close> of the job.\<close>

definition JSONEncoder_default :: "pyobject \<Rightarrow> pyexn + string" where
  "JSONEncoder_default obj =
     (if isinstance_UUID obj then Inr (str_obj obj) else base_default obj)"

text \<open>
  String literals of JSON with \<^verbatim>\<open>ensure_ascii\<close>: the quote, the backslash and the
  characters outside the range from space to tilde are escaped.
\<close>

definition escape_char :: "char \<Rightarrow> string" where
  "escape_char c =
     (if c = CHR 0x22 then [CHR 0x5C, CHR 0x22]
      else if c = CHR 0x5C then [CHR 0x5C, CHR 0x5C]
      else if c = CHR 0x0A then [CHR 0x5C, CHR ''n'']
      else if c = CHR 0x0D then [CHR 0x5C, CHR ''r'']
      else if c = CHR 0x09 then [CHR 0x5C, CHR ''t'']
      else if c = CHR 0x08 then [CHR 0x5C, CHR ''b'']
      else if c = CHR 0x0C then [CHR 0x5C, CHR ''f'']
      else if 32 \<le> (of_char c :: int) \<and> (of_char c :: int) \<le> 126 then [c]
      else [CHR 0x5C, CHR ''u'', CHR ''0'', CHR ''0'',
            digit_char (of_char c div 16), digit_char (of_char c mod 16)])"

definition encode_basestring_ascii :: "string \<Rightarrow> string" where
  "encode_basestring_ascii s = CHR 0x22 # concat (map escape_char s) @ [CHR 0x22]"

fun str_nat :: "nat \<Rightarrow> string" where
  "str_nat n =
     (if n < 10 then [digit_char (int n)]
      else str_nat (n div 10) @ [digit_char (int (n mod 10))])"

declare str_nat.simps [simp del]

definition str_int :: "int \<Rightarrow> string" where
  "str_int i = (if i < 0 then CHR ''-'' # str_nat (nat (- i)) else str_nat (nat i))"

text \<open>
  The encoder writes its output piece by piece and may raise in the middle, so its result
  is the text produced so far together with the exception, if any.
\<close>

type_synonym out = "string \<times> pyexn option"

definition emit :: "string \<Rightarrow> out" where
  "emit s = (s, None)"

fun then_out :: "out \<Rightarrow> out \<Rightarrow> out" where
  "then_out (a, None) (b, e) = (a @ b, e)"
| "then_out (a, Some x) _ = (a, Some x)"

record 'f encoder =
  default_hook :: "pyobject \<Rightarrow> pyexn + string"
  indent :: nat
  floatstr :: "'f \<Rightarrow> string"

definition newline_indent :: "'f encoder \<Rightarrow> nat \<Rightarrow> string" where
  "newline_indent E level = CHR 0x0A # replicate (indent E * level) (CHR '' '')"

text \<open>
  \<^verbatim>\<open>JSONEncoder.iterencode\<close> with an indent: item separator \<^verbatim>\<open>","\<close>, key separator
  \<^verbatim>\<open>": "\<close>, every item of a non-empty container on a line of its own. The flag of the
  two loops says whether the item is the first one.
\<close>

fun iterencode :: "'f encoder \<Rightarrow> nat \<Rightarrow> 'f pyval \<Rightarrow> out"
  and iterencode_list :: "'f encoder \<Rightarrow> nat \<Rightarrow> bool \<Rightarrow> 'f pyval list \<Rightarrow> out"
  and iterencode_dict :: "'f encoder \<Rightarrow> nat \<Rightarrow> bool \<Rightarrow> (string \<times> 'f pyval) list \<Rightarrow> out"
where
  "iterencode E lvl PNone = emit ''null''"
| "iterencode E lvl (PBool b) = emit (if b then ''true'' else ''false'')"
| "iterencode E lvl (PInt i) = emit (str_int i)"
| "iterencode E lvl (PFloat f) = emit (floatstr E f)"
| "iterencode E lvl (PStr s) = emit (encode_basestring_ascii s)"
| "iterencode E lvl (PList xs) =
     (if xs = [] then emit ''[]''
      else then_out (emit (''['' @ newline_indent E (lvl + 1)))
             (then_out (iterencode_list E (lvl + 1) True xs)
                (emit (newline_indent E lvl @ '']''))))"
| "iterencode E lvl (PDict kvs) =
     (if kvs = [] then emit ''{}''
      else then_out (emit (''{'' @ newline_indent E (lvl + 1)))
             (then_out (iterencode_dict E (lvl + 1) True kvs)
                (emit (newline_indent E lvl @ ''}''))))"
| "iterencode E lvl (PObj obj) =
     (case default_hook E obj of
        Inl e \<Rightarrow> ([], Some e)
      | Inr s \<Rightarrow> emit (encode_basestring_ascii s))"
| "iterencode_list E lvl first [] = emit []"
| "iterencode_list E lvl first (x # xs) =
     then_out (emit (if first then [] else '','' @ newline_indent E lvl))
       (then_out (iterencode E lvl x) (iterencode_list E lvl False xs))"
| "iterencode_dict E lvl first [] = emit []"
| "iterencode_dict E lvl first (kv # kvs) =
     then_out (emit ((if first then [] else '','' @ newline_indent E lvl) @
                     encode_basestring_ascii (fst kv) @ '': ''))
       (then_out (iterencode E lvl (snd kv)) (iterencode_dict E lvl False kvs))"

text \<open>The encoder that \<^verbatim>\<open>json.dump(data, f, indent=2, cls=JSONEncoder)\<close> builds.\<close>

definition job_encoder :: "('f \<Rightarrow> string) \<Rightarrow> 'f encoder" where
  "job_encoder frepr = \<lparr> default_hook = JSONEncoder_default, indent = 2, floatstr = frepr \<rparr>"

subsection \<open>The outside world and the state of a run\<close>

text \<open>
  The objects the trading client returns, with the attributes the job reads. Every
  attribute is a Python value of whatever type the API delivers.
\<close>

record 'f account_obj =
  acct_id :: "'f pyval"
  acct_cash :: "'f pyval"
  acct_portfolio_value :: "'f pyval"
  acct_buying_power :: "'f pyval"
  acct_currency :: "'f pyval"
  acct_status :: "'f pyval"
  acct_trading_blocked :: "'f pyval"
  acct_equity :: "'f pyval"

record 'f position_obj =
  pos_symbol :: "'f pyval"
  pos_qty :: "'f pyval"
  pos_market_value :: "'f pyval"
  pos_cost_basis :: "'f pyval"
  pos_unrealized_pl :: "'f pyval"
  pos_unrealized_plpc :: "'f pyval"
  pos_current_price :: "'f pyval"
  pos_avg_entry_price :: "'f pyval"
  pos_side :: "'f pyval"
  pos_exchange :: "'f pyval"

text \<open>The path \<^verbatim>\<open>DATA_DIR / filename\<close>.\<close>

datatype path = Path_div string string

text \<open>
  What the outside answers during one run: the successive readings of the UTC clock, the
  built-in \<^verbatim>\<open>float\<close> and the text \<^verbatim>\<open>json\<close> prints for a float, the outcome of
  constructing the client and of its two requests, and the outcome of opening and of
  writing a file. A failed write says how many characters had reached the file. Any of
  these may raise any exception, \<open>KeyboardInterrupt\<close> included.
\<close>

record 'f world =
  utcnow :: "nat \<Rightarrow> datetime"
  float_of :: "'f pyval \<Rightarrow> pyexn + 'f"
  float_repr :: "'f \<Rightarrow> string"
  new_client :: "pyexn option"
  get_account :: "pyexn + 'f account_obj"
  get_all_positions :: "pyexn + 'f position_obj list"
  open_file :: "path \<Rightarrow> pyexn option"
  write_file :: "path \<Rightarrow> string \<Rightarrow> (nat \<times> pyexn) option"

text \<open>
  What a run has done so far: how often it read the clock, the calls it made on the
  trading client, the files it wrote, and the lines it printed. Of the console output the
  model keeps the lines that report an outcome; the progress and diagnostic lines, whose
  text depends on paths and sizes, are left out, and so is the stack trace itself.
\<close>

datatype event = Client_constructed string string bool | Get_account | Get_all_positions

record pstate =
  clock_reads :: nat
  events :: "event list"
  files :: "path \<rightharpoonup> string"
  console :: "string list"

definition emit_event :: "event \<Rightarrow> pstate \<Rightarrow> pstate" where
  "emit_event ev s = s\<lparr>events := events s @ [ev]\<rparr>"

definition print_line :: "string \<Rightarrow> pstate \<Rightarrow> pstate" where
  "print_line l s = s\<lparr>console := console s @ [l]\<rparr>"

text \<open>
  The symbols U+2705 and U+274C that open the messages do not fit one character; each is
  written as the three bytes of its UTF-8 encoding.
\<close>

definition check_mark :: string where
  "check_mark = [CHR 0xE2, CHR 0x9C, CHR 0x85]"

definition cross_mark :: string where
  "cross_mark = [CHR 0xE2, CHR 0x9D, CHR 0x8C]"

subsection \<open>The job\<close>

definition get_malaysia_time :: "'f world \<Rightarrow> pstate \<Rightarrow> datetime \<times> pstate" where
  "get_malaysia_time w s =
     (let utc_now = utcnow w (clock_reads s);
          malaysia_time = utc_now + timedelta_hours 8
      in (malaysia_time, s\<lparr>clock_reads := clock_reads s + 1\<rparr>))"

text \<open>
  \<^verbatim>\<open>debug_environment\<close> prints diagnostics only. It reads the clock twice, once
  directly and once through \<^verbatim>\<open>get_malaysia_time\<close>.
\<close>

definition debug_environment :: "'f world \<Rightarrow> pstate \<Rightarrow> pstate" where
  "debug_environment w s =
     snd (get_malaysia_time w (s\<lparr>clock_reads := clock_reads s + 1\<rparr>))"

definition bindE :: "'e + 'a \<Rightarrow> ('a \<Rightarrow> 'e + 'b) \<Rightarrow> 'e + 'b" where
  "bindE m f = (case m of Inl e \<Rightarrow> Inl e | Inr x \<Rightarrow> f x)"

text \<open>The four conversions of the account dictionary, in the order of its entries.\<close>

definition account_floats :: "'f world \<Rightarrow> 'f account_obj \<Rightarrow> pyexn + ('f \<times> 'f \<times> 'f \<times> 'f)" where
  "account_floats w account =
     bindE (float_of w (acct_cash account)) (\<lambda>cash.
     bindE (float_of w (acct_portfolio_value account)) (\<lambda>portfolio_value.
     bindE (float_of w (acct_buying_power account)) (\<lambda>buying_power.
     bindE (float_of w (acct_equity account)) (\<lambda>equity.
     Inr (cash, portfolio_value, buying_power, equity)))))"

definition account_dict ::
  "'f account_obj \<Rightarrow> 'f \<times> 'f \<times> 'f \<times> 'f \<Rightarrow> datetime \<Rightarrow> 'f pyval" where
  "account_dict account fl t =
     (case fl of (cash, portfolio_value, buying_power, equity) \<Rightarrow>
        PDict [(''id'', acct_id account),
               (''cash'', PFloat cash),
               (''portfolio_value'', PFloat portfolio_value),
               (''buying_power'', PFloat buying_power),
               (''currency'', acct_currency account),
               (''account_status'', acct_status account),
               (''trading_blocked'', acct_trading_blocked account),
               (''equity'', PFloat equity),
               (''updated_at'', PStr (isoformat t))])"

text \<open>The dictionary appended for one position.\<close>

definition position_dict :: "'f world \<Rightarrow> 'f position_obj \<Rightarrow> pyexn + 'f pyval" where
  "position_dict w position =
     bindE (float_of w (pos_qty position)) (\<lambda>qty.
     bindE (float_of w (pos_market_value position)) (\<lambda>market_value.
     bindE (float_of w (pos_cost_basis position)) (\<lambda>cost_basis.
     bindE (float_of w (pos_unrealized_pl position)) (\<lambda>unrealized_pl.
     bindE (float_of w (pos_unrealized_plpc position)) (\<lambda>unrealized_plpc.
     bindE (float_of w (pos_current_price position)) (\<lambda>current_price.
     bindE (float_of w (pos_avg_entry_price position)) (\<lambda>avg_entry_price.
     Inr (PDict [(''symbol'', pos_symbol position),
                 (''qty'', PFloat qty),
                 (''market_value'', PFloat market_value),
                 (''cost_basis'', PFloat cost_basis),
                 (''unrealized_pl'', PFloat unrealized_pl),
                 (''unrealized_plpc'', PFloat unrealized_plpc),
                 (''current_price'', PFloat current_price),
                 (''avg_entry_price'', PFloat avg_entry_price),
                 (''side'', pos_side position),
                 (''exchange'', pos_exchange position)]))))))))"

text \<open>The loop over the positions, appending to \<^verbatim>\<open>positions_data\<close>.\<close>

fun positions_loop ::
  "'f world \<Rightarrow> 'f position_obj list \<Rightarrow> 'f pyval list \<Rightarrow> pyexn + 'f pyval list" where
  "positions_loop w [] positions_data = Inr positions_data"
| "positions_loop w (position # rest) positions_data =
     (case position_dict w position of
        Inl e \<Rightarrow> Inl e
      | Inr d \<Rightarrow> positions_loop w rest (positions_data @ [d]))"

text \<open>\<^verbatim>\<open>fetch_alpaca_data\<close> from the construction of the client on.\<close>

definition fetch_with_client ::
  "config \<Rightarrow> 'f world \<Rightarrow> pstate \<Rightarrow> (pyexn + 'f pyval) \<times> pstate" where
  "fetch_with_client cfg w s =
     (let s1 = emit_event (Client_constructed (credential (ALPACA_API_KEY cfg))
                 (credential (ALPACA_SECRET_KEY cfg)) (ALPACA_PAPER cfg)) s
      in case new_client w of
        Some e \<Rightarrow> (Inl e, s1)
      | None \<Rightarrow>
         (let s2 = emit_event Get_account s1
          in case get_account w of
            Inl e \<Rightarrow> (Inl e, s2)
          | Inr account \<Rightarrow>
             (case account_floats w account of
                Inl e \<Rightarrow> (Inl e, s2)
              | Inr fl \<Rightarrow>
                 (case get_malaysia_time w s2 of (t, s3) \<Rightarrow>
                    (let account_data = account_dict account fl t;
                         s4 = emit_event Get_all_positions s3
                     in case get_all_positions w of
                       Inl e \<Rightarrow> (Inl e, s4)
                     | Inr positions \<Rightarrow>
                        (case positions_loop w positions [] of
                           Inl e \<Rightarrow> (Inl e, s4)
                         | Inr positions_data \<Rightarrow>
                            (case float_of w (acct_cash account) of
                               Inl e \<Rightarrow> (Inl e, s4)
                             | Inr cash \<Rightarrow>
                                (case get_malaysia_time w s4 of (t', s5) \<Rightarrow>
                                   (Inr (PDict [(''account'', account_data),
                                                (''positions'', PList positions_data),
                                                (''cash'', PFloat cash),
                                                (''timestamp'', PStr (isoformat t'))]),
                                    s5)))))))))"

definition fetch_alpaca_data ::
  "config \<Rightarrow> 'f world \<Rightarrow> pstate \<Rightarrow> (pyexn + 'f pyval) \<times> pstate" where
  "fetch_alpaca_data cfg w s =
     (if py_not (ALPACA_API_KEY cfg) \<or> py_not (ALPACA_SECRET_KEY cfg)
      then (Inl (PyExn ValueError ''Missing Alpaca API credentials''), s)
      else fetch_with_client cfg w s)"

text \<open>
  The body of the \<^verbatim>\<open>try\<close> of \<^verbatim>\<open>save_data\<close>: opening the file for writing creates or
  empties it; \<^verbatim>\<open>json.dump\<close> then writes the pieces of the encoding as they come, so what
  the encoder had produced before it raised is in the file.
\<close>

definition dump_to_file ::
  "'f world \<Rightarrow> path \<Rightarrow> 'f pyval \<Rightarrow> pstate \<Rightarrow> (pyexn + unit) \<times> pstate" where
  "dump_to_file w filepath data s =
     (case open_file w filepath of
        Some e \<Rightarrow> (Inl e, s)
      | None \<Rightarrow>
         (case iterencode (job_encoder (float_repr w)) 0 data of (text, err) \<Rightarrow>
            (case write_file w filepath text of
               Some (n, e) \<Rightarrow> (Inl e, s\<lparr>files := (files s)(filepath \<mapsto> take n text)\<rparr>)
             | None \<Rightarrow>
                (case err of
                   Some e \<Rightarrow> (Inl e, s\<lparr>files := (files s)(filepath \<mapsto> text)\<rparr>)
                 | None \<Rightarrow> (Inr (), s\<lparr>files := (files s)(filepath \<mapsto> text)\<rparr>)))))"

definition save_data ::
  "config \<Rightarrow> 'f world \<Rightarrow> 'f pyval \<Rightarrow> string \<Rightarrow> pstate \<Rightarrow> (pyexn + path) \<times> pstate" where
  "save_data cfg w data agent_name s =
     (case get_malaysia_time w s of (t, s1) \<Rightarrow>
        (let timestamp = strftime_stamp t;
             filename = agent_name @ ''_'' @ timestamp @ ''.json'';
             filepath = Path_div (DATA_DIR cfg) filename
         in case dump_to_file w filepath data s1 of
           (Inr u, s2) \<Rightarrow> (Inr filepath, s2)
         | (Inl e, s2) \<Rightarrow>
            (if isinstance_Exception e
             then (Inl e, print_line (cross_mark @ '' Error saving file: '' @ exn_str e) s2)
             else (Inl e, s2))))"

definition success_msg :: string where
  "success_msg = check_mark @ '' Successfully fetched and saved Alpaca data''"

definition error_msg :: "pyexn \<Rightarrow> string" where
  "error_msg e = cross_mark @ '' Error in run_job: '' @ exn_str e"

text \<open>The body of the \<^verbatim>\<open>try\<close> of \<^verbatim>\<open>run_job\<close>.\<close>

definition fetch_and_save ::
  "config \<Rightarrow> 'f world \<Rightarrow> string \<Rightarrow> pstate \<Rightarrow> (pyexn + bool \<times> string) \<times> pstate" where
  "fetch_and_save cfg w agent_name s =
     (case fetch_alpaca_data cfg w s of
        (Inl e, s1) \<Rightarrow> (Inl e, s1)
      | (Inr data, s1) \<Rightarrow>
         (case save_data cfg w data agent_name s1 of
            (Inl e, s2) \<Rightarrow> (Inl e, s2)
          | (Inr filepath, s2) \<Rightarrow> (Inr (True, success_msg), print_line success_msg s2)))"

text \<open>
  \<^verbatim>\<open>run_job\<close>: the left injection of its result is an exception that leaves the
  function.
\<close>

definition run_job ::
  "config \<Rightarrow> 'f world \<Rightarrow> string \<Rightarrow> pstate \<Rightarrow> (pyexn + bool \<times> string) \<times> pstate" where
  "run_job cfg w agent_name s =
     (case fetch_and_save cfg w agent_name (debug_environment w s) of
        (Inr r, s1) \<Rightarrow> (Inr r, s1)
      | (Inl e, s1) \<Rightarrow>
         (if isinstance_Exception e
          then (Inr (False, error_msg e),
                print_line ''Full traceback:'' (print_line (error_msg e) s1))
          else (Inl e, s1)))"

text \<open>Reading an entry of a dictionary.\<close>

fun item :: "'f pyval \<Rightarrow> string \<Rightarrow> 'f pyval option" where
  "item (PDict kvs) k = map_of kvs k"
| "item _ k = None"

section \<open>Properties\<close>

lemma lower_char_t: "lower_char c = CHR ''t'' \<longleftrightarrow> c = CHR ''t'' \<or> c = CHR ''T''"
  by (auto simp: lower_char_def split: option.splits if_splits)

lemma lower_char_r: "lower_char c = CHR ''r'' \<longleftrightarrow> c = CHR ''r'' \<or> c = CHR ''R''"
  by (auto simp: lower_char_def split: option.splits if_splits)

lemma lower_char_u: "lower_char c = CHR ''u'' \<longleftrightarrow> c = CHR ''u'' \<or> c = CHR ''U''"
  by (auto simp: lower_char_def split: option.splits if_splits)

lemma lower_char_e: "lower_char c = CHR ''e'' \<longleftrightarrow> c = CHR ''e'' \<or> c = CHR ''E''"
  by (auto simp: lower_char_def split: option.splits if_splits)

lemma lower_eq_true: "lower v = ''true'' \<longleftrightarrow> is_true_ignoring_case v"
  by (auto simp: lower_def is_true_ignoring_case_def lower_char_t lower_char_r
        lower_char_u lower_char_e split: list.splits)

text \<open>
  Claim C7. The paper-trading flag is true exactly when \<^verbatim>\<open>ALPACA_PAPER\<close> is unset
  or its value equals \<^verbatim>\<open>"true"\<close> up to letter case; every other value, the empty
  string included, gives live mode.
\<close>

theorem paper_flag_iff:
  "ALPACA_PAPER (module_config env d) \<longleftrightarrow>
     (env ''ALPACA_PAPER'' = None \<or>
      (\<exists>v. env ''ALPACA_PAPER'' = Some v \<and> is_true_ignoring_case v))"
  by (cases "env ''ALPACA_PAPER''")
     (simp_all add: module_config_def getenv_default_def lower_eq_true
        is_true_ignoring_case_def)

end
